theory Spec2Isabelle
  imports Complex_Main "HOL-Library.Log_Nat"
begin

section \<open>Exceptions and the array operations the notebook relies on\<close>

text \<open>
  The notebook \<^verbatim>\<open>How_to_use_SDSS_Data.ipynb\<close> defines no exception class of its own:
  every failure is an exception of Python, numpy or a collaborator.  They are the
  values of \<open>error\<close>; a computation that may raise returns \<open>error + 'a\<close>.

  The columns of the photometric table hold binary floating-point numbers, and the
  colours and the target-selection cuts are modelled in their arithmetic (section
  \<open>Machine numbers\<close>): an entry is the rational number that the machine number
  denotes, and every operation rounds.  Masked entries, infinities and NaN are outside
  this model, and so are overflow and underflow, from which magnitudes and radii are
  far.  The wavelength solution and the asinh magnitudes, which the specification
  states up to a tolerance, are modelled over the reals.
\<close>

datatype error =
    ValueError        \<comment> \<open>numpy: operands could not be broadcast together\<close>
  | KeyError          \<comment> \<open>a dictionary or header lookup of an absent key\<close>
  | IndexError        \<comment> \<open>an index out of bounds\<close>
  | TypeError         \<comment> \<open>subscripting \<^verbatim>\<open>None\<close>\<close>
  | Collaborator string  \<comment> \<open>whatever the storage service or a decoder raises\<close>

fun and_then :: "error + 'a \<Rightarrow> ('a \<Rightarrow> error + 'b) \<Rightarrow> error + 'b" where
  "and_then (Inl e) f = Inl e"
| "and_then (Inr x) f = f x"

text \<open>
  A binary operator of numpy on two one-dimensional arrays: elementwise when the
  lengths agree, an array of length one is stretched to the other's length, and
  anything else raises \<^verbatim>\<open>ValueError\<close>.
\<close>

definition np_broadcast2 :: "('a \<Rightarrow> 'b \<Rightarrow> 'c) \<Rightarrow> 'a list \<Rightarrow> 'b list \<Rightarrow> error + 'c list" where
  "np_broadcast2 f xs ys =
     (if length xs = length ys then Inr (map2 f xs ys)
      else if length xs = 1 then Inr (map (f (hd xs)) ys)
      else if length ys = 1 then Inr (map (\<lambda>x. f x (hd ys)) xs)
      else Inl ValueError)"

text \<open>
  \<^verbatim>\<open>aux['c_par'] = v\<close>: the value is broadcast to the shape of the field it is
  assigned to, and the assignment raises when it cannot be.
\<close>

definition np_assign :: "'a list \<Rightarrow> 'a list \<Rightarrow> error + 'a list" where
  "np_assign field v =
     (if length v = length field then Inr v
      else if length v = 1 then Inr (replicate (length field) (hd v))
      else Inl ValueError)"

section \<open>Machine numbers\<close>

text \<open>
  Python's \<^verbatim>\<open>float\<close> and numpy's \<^verbatim>\<open>float64\<close> have \<open>p = 53\<close> significant bits,
  \<^verbatim>\<open>float32\<close> has \<open>p = 24\<close>.  A literal, a cast and the result of an arithmetic
  operation are the exact value rounded to the nearest such number, ties to the even
  significand.  \<open>fl p x\<close> is that rounding for a positive rational \<open>x\<close> in the normal
  range: \<open>ilog2 x\<close> is the exponent of the leading bit of \<open>x\<close>, so that \<open>x\<close> divided by
  \<open>2\<close> to the power \<open>ilog2 x - (p - 1)\<close> has \<open>p\<close> bits before the binary point.
  \<open>rnd p\<close> is the rounding of any rational: zero stays zero, and a negative number
  rounds as its absolute value does.
\<close>

definition nearest_even :: "rat \<Rightarrow> int" where
  "nearest_even q =
     (let f = \<lfloor>q\<rfloor>; r = q - of_int f
      in if r < 1 / 2 then f else if 1 / 2 < r then f + 1 else if even f then f else f + 1)"

definition ilog2 :: "rat \<Rightarrow> int" where
  "ilog2 x = (if 1 \<le> x then bitlen \<lfloor>x\<rfloor> - 1 else - bitlen (\<lceil>1 / x\<rceil> - 1))"

definition fl :: "nat \<Rightarrow> rat \<Rightarrow> rat" where
  "fl p x = (let e = ilog2 x - (int p - 1) in of_int (nearest_even (x / 2 powi e)) * 2 powi e)"

definition rnd :: "nat \<Rightarrow> rat \<Rightarrow> rat" where
  "rnd p x = (if x = 0 then 0 else if 0 < x then fl p x else - fl p (- x))"

text \<open>
  An arithmetic is what numpy does to the entries of arrays of one dtype.  \<open>lit c\<close> is
  the machine number that the Python literal \<open>c\<close> contributes to an operation with such
  an array; \<open>addf\<close>, \<open>subf\<close>, \<open>mulf\<close> and \<open>divf\<close> are the operations \<^verbatim>\<open>+\<close>, \<^verbatim>\<open>-\<close>,
  \<^verbatim>\<open>*\<close> and \<^verbatim>\<open>/\<close>, each rounded once; \<open>absf\<close> is \<^verbatim>\<open>np.abs\<close> and \<open>ltf\<close> is \<^verbatim>\<open><\<close>, which
  are exact; \<open>castf\<close> is the conversion to the dtype when a value is assigned to a field
  of that dtype.
\<close>

record 'a arith =
  lit :: "rat \<Rightarrow> 'a"
  addf :: "'a \<Rightarrow> 'a \<Rightarrow> 'a"
  subf :: "'a \<Rightarrow> 'a \<Rightarrow> 'a"
  mulf :: "'a \<Rightarrow> 'a \<Rightarrow> 'a"
  divf :: "'a \<Rightarrow> 'a \<Rightarrow> 'a"
  absf :: "'a \<Rightarrow> 'a"
  ltf :: "'a \<Rightarrow> 'a \<Rightarrow> bool"
  castf :: "'a \<Rightarrow> 'a"

text \<open>
  Double precision: a Python literal is the double nearest to its decimal value, and
  every operation on \<^verbatim>\<open>float64\<close> arrays and Python scalars is carried out in double
  precision.
\<close>

definition float64 :: "rat arith" where
  "float64 = \<lparr>lit = rnd 53,
     addf = (\<lambda>x y. rnd 53 (x + y)), subf = (\<lambda>x y. rnd 53 (x - y)),
     mulf = (\<lambda>x y. rnd 53 (x * y)), divf = (\<lambda>x y. rnd 53 (x / y)),
     absf = abs, ltf = (<), castf = rnd 53\<rparr>"

text \<open>
  Single precision, as numpy computes on plain \<^verbatim>\<open>float32\<close> arrays: a Python scalar
  that meets such an array is converted from its double to single precision, and the
  operation is carried out in single precision.  Where numpy promotes an operation
  between a single-precision array and a Python scalar to double precision instead,
  which depends on its version and on the class of the array and can happen with the
  masked arrays that \<^verbatim>\<open>parse_single_table\<close> returns, the operation is the one of
  \<open>float64\<close>, applied to entries that are single-precision numbers.
\<close>

definition float32 :: "rat arith" where
  "float32 = \<lparr>lit = (\<lambda>c. rnd 24 (rnd 53 c)),
     addf = (\<lambda>x y. rnd 24 (x + y)), subf = (\<lambda>x y. rnd 24 (x - y)),
     mulf = (\<lambda>x y. rnd 24 (x * y)), divf = (\<lambda>x y. rnd 24 (x / y)),
     absf = abs, ltf = (<), castf = rnd 24\<rparr>"

section \<open>Array arithmetic on machine numbers\<close>

text \<open>Two arrays: the operator meets the entries pairwise, after broadcasting.\<close>

definition np_add :: "'a arith \<Rightarrow> 'a list \<Rightarrow> 'a list \<Rightarrow> error + 'a list" where
  "np_add ar = np_broadcast2 (addf ar)"

definition np_sub :: "'a arith \<Rightarrow> 'a list \<Rightarrow> 'a list \<Rightarrow> error + 'a list" where
  "np_sub ar = np_broadcast2 (subf ar)"

definition np_less :: "'a arith \<Rightarrow> 'a list \<Rightarrow> 'a list \<Rightarrow> error + bool list" where
  "np_less ar = np_broadcast2 (ltf ar)"

definition np_greater :: "'a arith \<Rightarrow> 'a list \<Rightarrow> 'a list \<Rightarrow> error + bool list" where
  "np_greater ar = np_broadcast2 (\<lambda>x y. ltf ar y x)"

definition np_and :: "bool list \<Rightarrow> bool list \<Rightarrow> error + bool list" where
  "np_and = np_broadcast2 (\<and>)"

text \<open>
  An array and a Python literal: the literal meets every entry, nothing is raised.
  \<open>times_lit c xs\<close> is \<^verbatim>\<open>c * xs\<close>, \<open>plus_lit c xs\<close> is \<^verbatim>\<open>c + xs\<close>, \<open>lit_minus c xs\<close> is
  \<^verbatim>\<open>c - xs\<close>, \<open>minus_lit xs c\<close> is \<^verbatim>\<open>xs - c\<close>, \<open>over_lit xs c\<close> is \<^verbatim>\<open>xs / c\<close>,
  \<open>less_lit xs c\<close> is \<^verbatim>\<open>xs < c\<close> and \<open>greater_lit xs c\<close> is \<^verbatim>\<open>xs > c\<close>.
\<close>

definition times_lit :: "'a arith \<Rightarrow> rat \<Rightarrow> 'a list \<Rightarrow> 'a list" where
  "times_lit ar c xs = map (\<lambda>x. mulf ar (lit ar c) x) xs"

definition plus_lit :: "'a arith \<Rightarrow> rat \<Rightarrow> 'a list \<Rightarrow> 'a list" where
  "plus_lit ar c xs = map (\<lambda>x. addf ar (lit ar c) x) xs"

definition lit_minus :: "'a arith \<Rightarrow> rat \<Rightarrow> 'a list \<Rightarrow> 'a list" where
  "lit_minus ar c xs = map (\<lambda>x. subf ar (lit ar c) x) xs"

definition minus_lit :: "'a arith \<Rightarrow> 'a list \<Rightarrow> rat \<Rightarrow> 'a list" where
  "minus_lit ar xs c = map (\<lambda>x. subf ar x (lit ar c)) xs"

definition over_lit :: "'a arith \<Rightarrow> 'a list \<Rightarrow> rat \<Rightarrow> 'a list" where
  "over_lit ar xs c = map (\<lambda>x. divf ar x (lit ar c)) xs"

definition less_lit :: "'a arith \<Rightarrow> 'a list \<Rightarrow> rat \<Rightarrow> bool list" where
  "less_lit ar xs c = map (\<lambda>x. ltf ar x (lit ar c)) xs"

definition greater_lit :: "'a arith \<Rightarrow> 'a list \<Rightarrow> rat \<Rightarrow> bool list" where
  "greater_lit ar xs c = map (\<lambda>x. ltf ar (lit ar c) x) xs"

definition np_abs :: "'a arith \<Rightarrow> 'a list \<Rightarrow> 'a list" where
  "np_abs ar xs = map (absf ar) xs"

text \<open>
  \<^verbatim>\<open>aux['c_par'] = v\<close> on a field of the arithmetic's dtype: the value is broadcast to
  the shape of the field and every entry is cast to the dtype.
\<close>

definition np_store :: "'a arith \<Rightarrow> 'a list \<Rightarrow> 'a list \<Rightarrow> error + 'a list" where
  "np_store ar field v = and_then (np_assign field v) (\<lambda>w. Inr (map (castf ar) w))"

section \<open>The photometric table and the auxiliary colours\<close>

text \<open>
  \<open>result\<close>, the table parsed from the query, is read column by column
  (\<^verbatim>\<open>result['cmodelmag_r']\<close>).  The record keeps its one-dimensional shape and the
  columns the cuts read.  A numpy structured array has every column of the length of
  its shape; that invariant is \<open>structured\<close>.  The record itself does not enforce it,
  so that what the array arithmetic does on columns of different lengths can be said.
\<close>

record 'a photo_table =
  shape :: nat
  devrad_i :: "'a list"
  modelmag_g :: "'a list"
  modelmag_r :: "'a list"
  modelmag_i :: "'a list"
  modelmag_z :: "'a list"
  cmodelmag_r :: "'a list"
  cmodelmag_i :: "'a list"
  psfmag_r :: "'a list"
  psfmag_i :: "'a list"
  psfmag_z :: "'a list"
  fiber2mag_i :: "'a list"

definition structured :: "'a photo_table \<Rightarrow> bool" where
  "structured t \<longleftrightarrow>
     length (devrad_i t) = shape t \<and>
     length (modelmag_g t) = shape t \<and> length (modelmag_r t) = shape t \<and>
     length (modelmag_i t) = shape t \<and> length (modelmag_z t) = shape t \<and>
     length (cmodelmag_r t) = shape t \<and> length (cmodelmag_i t) = shape t \<and>
     length (psfmag_r t) = shape t \<and> length (psfmag_i t) = shape t \<and>
     length (psfmag_z t) = shape t \<and> length (fiber2mag_i t) = shape t"

record 'a aux_table =
  c_par :: "'a list"
  c_perp :: "'a list"
  d_perp :: "'a list"

text \<open>
  \<^verbatim>\<open>
  dt = data['modelmag_r'].dtype
  aux = np.zeros(data.shape, dtype=[('c_par', dt), ('c_perp', dt), ('d_perp', dt)])
  aux['c_par'] = (0.7 * (data['modelmag_g'] - data['modelmag_r']) +
                  1.2 * (data['modelmag_r'] - data['modelmag_i'] - 0.18))
  aux['c_perp'] = ((data['modelmag_r'] - data['modelmag_i']) -
                   (data['modelmag_g'] - data['modelmag_r'])/4.0 - 0.18)
  aux['d_perp'] = ((data['modelmag_r'] - data['modelmag_i']) -
                   (data['modelmag_g'] - data['modelmag_r'])/8.0)
  return aux
  \<close>
  \<open>ar\<close> is the arithmetic of the dtype of the magnitude columns, which is also the
  dtype \<^verbatim>\<open>dt\<close> of the three fields of \<^verbatim>\<open>aux\<close>.  Python evaluates each expression in
  the order in which it is written, \<^verbatim>\<open>-\<close> associating to the left.
\<close>

definition c_par_expr :: "'a arith \<Rightarrow> 'a photo_table \<Rightarrow> error + 'a list" where
  "c_par_expr ar data =
     and_then (np_sub ar (modelmag_g data) (modelmag_r data)) (\<lambda>gr.
     and_then (np_sub ar (modelmag_r data) (modelmag_i data)) (\<lambda>ri.
       np_add ar (times_lit ar 0.7 gr) (times_lit ar 1.2 (minus_lit ar ri 0.18))))"

definition c_perp_expr :: "'a arith \<Rightarrow> 'a photo_table \<Rightarrow> error + 'a list" where
  "c_perp_expr ar data =
     and_then (np_sub ar (modelmag_r data) (modelmag_i data)) (\<lambda>ri.
     and_then (np_sub ar (modelmag_g data) (modelmag_r data)) (\<lambda>gr.
     and_then (np_sub ar ri (over_lit ar gr 4.0)) (\<lambda>d.
       Inr (minus_lit ar d 0.18))))"

definition d_perp_expr :: "'a arith \<Rightarrow> 'a photo_table \<Rightarrow> error + 'a list" where
  "d_perp_expr ar data =
     and_then (np_sub ar (modelmag_r data) (modelmag_i data)) (\<lambda>ri.
     and_then (np_sub ar (modelmag_g data) (modelmag_r data)) (\<lambda>gr.
       np_sub ar ri (over_lit ar gr 8.0)))"

definition auxilliary_colors :: "'a arith \<Rightarrow> 'a photo_table \<Rightarrow> error + 'a aux_table" where
  "auxilliary_colors ar data =
     (let zeros = replicate (shape data) (lit ar 0);
          aux = \<lparr>c_par = zeros, c_perp = zeros, d_perp = zeros\<rparr>
      in and_then (c_par_expr ar data) (\<lambda>v1.
         and_then (np_store ar (c_par aux) v1) (\<lambda>f1.
         and_then (c_perp_expr ar data) (\<lambda>v2.
         and_then (np_store ar (c_perp aux) v2) (\<lambda>f2.
         and_then (d_perp_expr ar data) (\<lambda>v3.
         and_then (np_store ar (d_perp aux) v3) (\<lambda>f3.
           Inr (aux\<lparr>c_par := f1, c_perp := f2, d_perp := f3\<rparr>))))))))"

section \<open>The target-selection cuts\<close>




section \<open>Tables used as test inputs\<close>

text \<open>
  The entries are double-precision numbers, written as the rationals they are:
  \<open>2899192260119757 / 2 ^ 47\<close> is the double nearest to \<open>20.6\<close>, and so on for \<open>7.91\<close>,
  \<open>7.92\<close>, \<open>18.24\<close>, \<open>18.3\<close> and \<open>19.7\<close>.  Three rows that differ only where a cut is
  tested: row 0 passes both cuts, row 1 has \<open>devrad_i = 7.92\<close> (the boundary of the
  radius cut), row 2 has \<open>cmodelmag_r = 19.7\<close> (beyond the faint limit of LOWZ).
  \<open>boss_aux\<close> holds the colours that double-precision arithmetic gives them.
\<close>

definition boss_rows :: "rat photo_table" where
  "boss_rows = \<lparr>shape = 3,
     devrad_i = [2226467065781289 / 2 ^ 48, 4458563631096791 / 2 ^ 49, 2],
     modelmag_g = replicate 3 (2899192260119757 / 2 ^ 47),
     modelmag_r = [19, 19, 19],
     modelmag_i = replicate 3 (5134103575202365 / 2 ^ 48),
     modelmag_z = [18, 18, 18],
     cmodelmag_r = [19, 19, 5545057041199923 / 2 ^ 48],
     cmodelmag_i = replicate 3 (5150992073805005 / 2 ^ 48),
     psfmag_r = [39 / 2, 39 / 2, 41 / 2],
     psfmag_i = [19, 19, 19],
     psfmag_z = [19, 19, 19],
     fiber2mag_i = [21, 21, 21]\<rparr>"

definition boss_aux :: "rat aux_table" where
  "boss_aux = \<lparr>
     c_par = replicate 3 (4089268461652417 / 2 ^ 51),
     c_perp = replicate 3 (3242591731706779 / 2 ^ 54),
     d_perp = replicate 3 (630503947831871 / 2 ^ 50)\<rparr>"




text \<open>
  Columns of different lengths, which no structured array has but a mapping of
  separately built column arrays with a \<^verbatim>\<open>shape\<close> attribute does: in \<open>ragged_rows\<close>
  the \<open>g\<close> column has one entry and the others two (\<open>r = 19.0, 17.5\<close> and
  \<open>i = 18.24, 17.0\<close>); in \<open>mismatched_rows\<close> it has two and the others three.
\<close>

definition ragged_rows :: "rat photo_table" where
  "ragged_rows = boss_rows\<lparr>shape := 2, modelmag_g := [2899192260119757 / 2 ^ 47],
     modelmag_r := [19, 35 / 2], modelmag_i := [5134103575202365 / 2 ^ 48, 17]\<rparr>"

definition mismatched_rows :: "rat photo_table" where
  "mismatched_rows = boss_rows\<lparr>modelmag_g := replicate 2 (2899192260119757 / 2 ^ 47)\<rparr>"

section \<open>Remote paths\<close>

text \<open>
  The paths are built by \<^verbatim>\<open>str.format\<close>: \<^verbatim>\<open>{:d}\<close> is the decimal numeral of an
  integer, \<^verbatim>\<open>{:04d}\<close> pads it with zeros to four characters, the sign first.
\<close>

definition digit :: "nat \<Rightarrow> char" where
  "digit d = ''0123456789'' ! d"

function str_nat :: "nat \<Rightarrow> string" where
  "str_nat n = (if n < 10 then [digit n] else str_nat (n div 10) @ [digit (n mod 10)])"
  by pat_completeness auto
termination
  by (relation "measure id") auto

declare str_nat.simps [simp del]

definition format_d :: "int \<Rightarrow> string" where
  "format_d n = (if n < 0 then ''-'' else []) @ str_nat (nat \<bar>n\<bar>)"

definition format_0d :: "nat \<Rightarrow> int \<Rightarrow> string" where
  "format_0d width n =
     (let sign = (if n < 0 then ''-'' else []); digits = str_nat (nat \<bar>n\<bar>)
      in sign @ replicate (width - length sign - length digits) CHR ''0'' @ digits)"

text \<open>
  \<^verbatim>\<open>vopath = "{0}sdss/spectro/redux/{1}/{2:04d}/spPlate-{2:04d}-{3:05d}.fits".format(sas, run2d, plate, mjd)\<close>
\<close>

definition vopath :: "string \<Rightarrow> string \<Rightarrow> int \<Rightarrow> int \<Rightarrow> string" where
  "vopath sas run2d plate mjd =
     sas @ ''sdss/spectro/redux/'' @ run2d @ ''/'' @ format_0d 4 plate @ ''/spPlate-'' @
     format_0d 4 plate @ ''-'' @ format_0d 5 mjd @ ''.fits''"

text \<open>
  \<^verbatim>\<open>fm = '{0}eboss/photoObj/frames/301/{1:d}/{2:d}/frame-{3}-{1:06d}-{2:d}-{4:04d}.fits.bz2'.format(sas, run, camcol, band, field)\<close>
\<close>

definition fm :: "string \<Rightarrow> int \<Rightarrow> int \<Rightarrow> string \<Rightarrow> int \<Rightarrow> string" where
  "fm sas run camcol band field =
     sas @ ''eboss/photoObj/frames/301/'' @ format_d run @ ''/'' @ format_d camcol @
     ''/frame-'' @ band @ ''-'' @ format_0d 6 run @ ''-'' @ format_d camcol @ ''-'' @
     format_0d 4 field @ ''.fits.bz2''"

section \<open>Spectra\<close>

text \<open>
  A decoded FITS file is a list of header-data units.  A header maps a keyword to its
  value (the numeric cards are all the code reads); the data of a unit is a
  two-dimensional array, a list of rows, or \<^verbatim>\<open>None\<close> when the unit has none.
\<close>

type_synonym fits_header = "string \<rightharpoonup> real"

record hdu =
  header :: fits_header
  data :: "real list list option"

text \<open>\<^verbatim>\<open>d[key]\<close> on a dictionary or a header.\<close>

definition getkey :: "('k \<rightharpoonup> 'v) \<Rightarrow> 'k \<Rightarrow> error + 'v" where
  "getkey d key = (case d key of None \<Rightarrow> Inl KeyError | Some v \<Rightarrow> Inr v)"

text \<open>\<^verbatim>\<open>hdulist[k]\<close> for the literal indices \<open>0\<close>, \<open>1\<close> and \<open>6\<close>.\<close>

definition getitem :: "'a list \<Rightarrow> nat \<Rightarrow> error + 'a" where
  "getitem xs k = (if k < length xs then Inr (xs ! k) else Inl IndexError)"

text \<open>
  \<^verbatim>\<open>data[j, :]\<close>: row \<open>j\<close> of the array; a negative \<open>j\<close> counts from the last row,
  as every Python index does, and \<open>j\<close> outside \<open>-n \<le> j < n\<close> raises.
\<close>

definition row_at :: "real list list option \<Rightarrow> int \<Rightarrow> error + real list" where
  "row_at d j =
     (case d of
        None \<Rightarrow> Inl TypeError
      | Some rows \<Rightarrow>
          (let n = int (length rows)
           in if 0 \<le> j \<and> j < n then Inr (rows ! nat j)
              else if - n \<le> j \<and> j < 0 then Inr (rows ! nat (n + j))
              else Inl IndexError))"

text \<open>\<^verbatim>\<open>np.arange(stop)\<close>: the numbers \<open>0, 1, \<dots>\<close> below \<open>stop\<close>.\<close>

definition np_arange :: "real \<Rightarrow> real list" where
  "np_arange stop = map real [0..<nat \<lceil>stop\<rceil>]"

text \<open>
  An array and a Python scalar, over the reals: the scalar meets every element,
  nothing is raised.
\<close>

definition scalar_times :: "real \<Rightarrow> real list \<Rightarrow> real list" where
  "scalar_times c xs = map (\<lambda>x. c * x) xs"

definition scalar_plus :: "real \<Rightarrow> real list \<Rightarrow> real list" where
  "scalar_plus c xs = map (\<lambda>x. c + x) xs"

text \<open>
  \<^verbatim>\<open>
  with fits.open(sc.get(vopath, mode='fileobj')) as hdulist:
      hdr = hdulist[0].header
      flux = hdulist[0].data[fiber-1, :]
      ivar = hdulist[1].data[fiber-1, :]
      sky = hdulist[6].data[fiber-1, :]
  loglam = hdr['COEFF0'] + hdr['COEFF1']*np.arange(hdr['NAXIS1'], dtype=flux.dtype)
  wavelength = 10.0**loglam
  return wavelength, flux, ivar, sky
  \<close>
  \<open>fits_open\<close> is the storage collaborator followed by the FITS decoder: the decoded
  file at a path, or what either of them raises.
\<close>

definition extract_spectrum ::
  "(string \<Rightarrow> error + hdu list) \<Rightarrow> int \<Rightarrow> int \<Rightarrow> int \<Rightarrow> string \<Rightarrow> int \<Rightarrow> string \<Rightarrow>
     error + (real list \<times> real list \<times> real list \<times> real list)" where
  "extract_spectrum fits_open plate mjd fiber run2d release sas =
     and_then (fits_open (vopath sas run2d plate mjd)) (\<lambda>hdulist.
     and_then (getitem hdulist 0) (\<lambda>h0.
     and_then (getitem hdulist 0) (\<lambda>h0'.
     and_then (row_at (data h0') (fiber - 1)) (\<lambda>flux.
     and_then (getitem hdulist 1) (\<lambda>h1.
     and_then (row_at (data h1) (fiber - 1)) (\<lambda>ivar.
     and_then (getitem hdulist 6) (\<lambda>h6.
     and_then (row_at (data h6) (fiber - 1)) (\<lambda>sky.
     and_then (getkey (header h0) ''COEFF0'') (\<lambda>coeff0.
     and_then (getkey (header h0) ''COEFF1'') (\<lambda>coeff1.
     and_then (getkey (header h0) ''NAXIS1'') (\<lambda>naxis1.
       (let loglam = scalar_plus coeff0 (scalar_times coeff1 (np_arange naxis1));
            wavelength = map (\<lambda>l. 10 powr l) loglam
        in Inr (wavelength, flux, ivar, sky)))))))))))))"

text \<open>Every row of a unit's data has \<open>N\<close> entries.\<close>

definition rows_of_length :: "nat \<Rightarrow> hdu \<Rightarrow> bool" where
  "rows_of_length N h \<longleftrightarrow>
     (case data h of None \<Rightarrow> True | Some rows \<Rightarrow> list_all (\<lambda>row. length row = N) rows)"

section \<open>Frames\<close>

text \<open>
  \<^verbatim>\<open>
  C = -2.5/np.log(10.0)
  b = dict(u=1.4e-10, g=0.9e-10, r=1.2e-10, i=1.8e-10, z=7.4e-10)
  mag = C*(np.arcsinh((image*1.0e-9)/(2.0*b[band])) + np.log(b[band]))
  return mag
  \<close>
  The image is a two-dimensional array; every operation is elementwise.  Python
  computes \<^verbatim>\<open>image*1.0e-9\<close> before it looks \<^verbatim>\<open>b[band]\<close> up; the product cannot
  fail, so the result is the same with the lookups first.
\<close>

definition asinh_image :: "real list list \<Rightarrow> string \<Rightarrow> error + real list list" where
  "asinh_image img band =
     (let C = - 2.5 / ln 10.0;
          b = [''u'' \<mapsto> 1.4 / 10 ^ 10, ''g'' \<mapsto> 0.9 / 10 ^ 10, ''r'' \<mapsto> 1.2 / 10 ^ 10,
               ''i'' \<mapsto> 1.8 / 10 ^ 10, ''z'' \<mapsto> 7.4 / 10 ^ 10]
      in and_then (getkey b band) (\<lambda>b1.
         and_then (getkey b band) (\<lambda>b2.
           Inr (map (map (\<lambda>x. C * (arsinh ((x * (1.0 / 10 ^ 9)) / (2.0 * b1)) + ln b2))) img))))"

text \<open>
  \<^verbatim>\<open>
  extract_frame_cache = dict()

  def extract_frame(run, camcol, field, band, sas='sdss_dr14://'):
      fm = ...
      if fm not in extract_frame_cache:
          with BZ2File(BytesIO(sc.get(fm, mode='binary'))) as cf:
              with fits.open(cf) as hdulist:
                  extract_frame_cache[fm] = hdulist[0].data
      return extract_frame_cache[fm]
  \<close>
  The state of the process is the global dictionary and, to count them, the list of
  paths the storage collaborator was called with.  The storage collaborator is a
  remote service, and what it answers for a path may change from one call to the
  next: a request that timed out may succeed when repeated.  So the service has a
  state of its own, \<open>storage\<close>, and \<open>sc_get path w\<close> is the answer of the service in the
  state \<open>w\<close> (bytes, or an exception) together with its state after the call.
  \<open>decode\<close> is what happens to the bytes: bz2 decompression, FITS decoding, the data
  of unit 0.
\<close>

record ('img, 'w) process =
  extract_frame_cache :: "string \<rightharpoonup> 'img"
  sc_calls :: "string list"
  storage :: 'w

definition extract_frame ::
  "(string \<Rightarrow> 'w \<Rightarrow> (error + 'bytes) \<times> 'w) \<Rightarrow> ('bytes \<Rightarrow> error + 'img) \<Rightarrow>
     int \<Rightarrow> int \<Rightarrow> int \<Rightarrow> string \<Rightarrow> string \<Rightarrow> ('img, 'w) process \<Rightarrow>
     (error + 'img) \<times> ('img, 'w) process" where
  "extract_frame sc_get decode run camcol field band sas s =
     (let path = fm sas run camcol band field
      in if extract_frame_cache s path = None then
           (let (fetched, w) = sc_get path (storage s);
                s1 = s\<lparr>sc_calls := sc_calls s @ [path], storage := w\<rparr>
            in case and_then fetched decode of
                 Inl e \<Rightarrow> (Inl e, s1)
               | Inr img \<Rightarrow>
                   (let s2 = s1\<lparr>extract_frame_cache := (extract_frame_cache s1)(path \<mapsto> img)\<rparr>
                    in (getkey (extract_frame_cache s2) path, s2)))
         else (getkey (extract_frame_cache s) path, s))"

text \<open>Two calls with the same arguments, one after the other.\<close>

definition twice ::
  "(string \<Rightarrow> 'w \<Rightarrow> (error + 'bytes) \<times> 'w) \<Rightarrow> ('bytes \<Rightarrow> error + 'img) \<Rightarrow>
     int \<Rightarrow> int \<Rightarrow> int \<Rightarrow> string \<Rightarrow> string \<Rightarrow> ('img, 'w) process \<Rightarrow>
     ((error + 'img) \<times> ('img, 'w) process) \<times> ((error + 'img) \<times> ('img, 'w) process)" where
  "twice sc_get decode run camcol field band sas s =
     (let (r1, s1) = extract_frame sc_get decode run camcol field band sas s;
          (r2, s2) = extract_frame sc_get decode run camcol field band sas s1
      in ((r1, s1), (r2, s2)))"

text \<open>
  A run of calls, each with its arguments \<open>(run, camcol, field, band, sas)\<close>, and the
  state in which the module is loaded: an empty cache, no call made, the storage
  service in some state \<open>w\<close>.
\<close>

type_synonym frame_call = "int \<times> int \<times> int \<times> string \<times> string"

definition fresh :: "'w \<Rightarrow> ('img, 'w) process" where
  "fresh w = \<lparr>extract_frame_cache = Map.empty, sc_calls = [], storage = w\<rparr>"

fun run_calls ::
  "(string \<Rightarrow> 'w \<Rightarrow> (error + 'bytes) \<times> 'w) \<Rightarrow> ('bytes \<Rightarrow> error + 'img) \<Rightarrow>
     frame_call list \<Rightarrow> ('img, 'w) process \<Rightarrow> ('img, 'w) process" where
  "run_calls sc_get decode [] s = s"
| "run_calls sc_get decode ((run, camcol, field, band, sas) # calls) s =
     run_calls sc_get decode calls (snd (extract_frame sc_get decode run camcol field band sas s))"

section \<open>Files and collaborators used as test inputs\<close>

text \<open>
  A synthetic plate file of seven units with two fibres of four pixels each and
  \<open>COEFF0 = 3.5\<close>, \<open>COEFF1 = 0.0001\<close>; every unit carries the \<open>NAXIS1\<close> of its own
  rows.  In \<open>uneven_plate\<close> the rows of unit 1 have three pixels instead of four.
\<close>

definition plate_unit :: "real list list \<Rightarrow> hdu" where
  "plate_unit rows = \<lparr>header = [''COEFF0'' \<mapsto> 3.5, ''COEFF1'' \<mapsto> 0.0001,
      ''NAXIS1'' \<mapsto> real (length (hd rows)), ''NAXIS2'' \<mapsto> real (length rows)],
     data = Some rows\<rparr>"

definition synthetic_plate :: "hdu list" where
  "synthetic_plate =
     [plate_unit [[1, 2, 3, 4], [5, 6, 7, 8]],
      plate_unit [[0.1, 0.2, 0.3, 0.4], [0.5, 0.6, 0.7, 0.8]],
      plate_unit [[0, 0, 0, 0], [0, 0, 0, 0]],
      plate_unit [[0, 0, 0, 0], [0, 0, 0, 0]],
      plate_unit [[0, 0, 0, 0], [0, 0, 0, 0]],
      plate_unit [[0, 0, 0, 0], [0, 0, 0, 0]],
      plate_unit [[10, 20, 30, 40], [50, 60, 70, 80]]]"

definition uneven_plate :: "hdu list" where
  "uneven_plate = synthetic_plate[1 := plate_unit [[0.1, 0.2, 0.3], [0.5, 0.6, 0.7]]]"

text \<open>A storage that holds one file, at the path of plate 4202, MJD 55445.\<close>

definition serve :: "hdu list \<Rightarrow> string \<Rightarrow> error + hdu list" where
  "serve file path =
     (if path = ''sdss_dr14://sdss/spectro/redux/v5_10_0/4202/spPlate-4202-55445.fits''
      then Inr file else Inl (Collaborator ''not found''))"

text \<open>
  The frame of run 6122, column 1, field 13 in the \<open>r\<close> band; a storage that holds it,
  one that always fails, and one whose first answer is a failure and which holds the
  frame from then on (its state counts the requests).
\<close>

definition frame_6122 :: string where
  "frame_6122 = ''sdss_dr14://eboss/photoObj/frames/301/6122/1/frame-r-006122-1-0013.fits.bz2''"

definition frames :: "string \<Rightarrow> unit \<Rightarrow> (error + real list list) \<times> unit" where
  "frames path w =
     (if path = frame_6122 then Inr [[0, 1], [2, 3]] else Inl (Collaborator ''not found''), ())"

definition unreachable :: "string \<Rightarrow> unit \<Rightarrow> (error + real list list) \<times> unit" where
  "unreachable path w = (Inl (Collaborator ''unreachable''), ())"

definition flaky :: "string \<Rightarrow> nat \<Rightarrow> (error + real list list) \<times> nat" where
  "flaky path n =
     (if n = 0 then Inl (Collaborator ''timed out'') else fst (frames path ()), n + 1)"

section \<open>Properties of the machine numbers\<close>

text \<open>
  Rules that evaluate \<open>rnd\<close> on a numeral: the floor of a quotient of numerals is an
  integer division, the bit length of a positive integer is one more than that of its
  half, and a power of two with an integer exponent is a numeral or its reciprocal.
\<close>

lemma floor_rat_numeral:
  "\<lfloor>(numeral a / numeral b :: rat)\<rfloor> = numeral a div numeral b"
  "\<lfloor>(- (numeral a / numeral b) :: rat)\<rfloor> = - numeral a div numeral b"
  using floor_divide_of_int_eq [of "numeral a" "numeral b", where ?'a = rat]
    floor_divide_of_int_eq [of "- numeral a" "numeral b", where ?'a = rat]
  by simp_all

lemma ceiling_rat_numeral:
  "\<lceil>(numeral a / numeral b :: rat)\<rceil> = - (- numeral a div numeral b)"
  using floor_rat_numeral(2) [of a b] by (simp add: ceiling_def)

lemma floorlog_step: "0 < x \<Longrightarrow> floorlog 2 x = floorlog 2 (x div 2) + 1"
  by (subst compute_floorlog) simp

lemma floorlog_zero: "floorlog 2 0 = 0"
  by (simp add: floorlog_def)

lemma powi2:
  "(2::rat) powi e = (if 0 \<le> e then of_int (2 ^ nat e) else 1 / of_int (2 ^ nat (- e)))"
  by (simp add: power_int_def field_simps)

lemmas rnd_eval = rnd_def fl_def ilog2_def nearest_even_def Let_def bitlen_def
  floorlog_step floorlog_zero powi2 floor_rat_numeral ceiling_rat_numeral

lemmas float_eval = float64_def float32_def rnd_eval

text \<open>
  The literals of the radius cut and of the faint limit of LOWZ, in double and in
  single precision.  None of \<open>7.92\<close>, \<open>7.91\<close>, \<open>0.396\<close>, \<open>19.7\<close> and \<open>19.6\<close> is a binary
  fraction; \<open>20\<close> is.
\<close>

lemma literals:
  "lit float64 7.92 = 4458563631096791 / 2 ^ 49"
  "lit float64 7.91 = 2226467065781289 / 2 ^ 48"
  "lit float64 0.396 = 3566850904877433 / 2 ^ 53"
  "lit float64 19.7 = 5545057041199923 / 2 ^ 48"
  "lit float64 19.6 = 2758454771764429 / 2 ^ 47"
  "lit float64 20 = 20"
  "lit float32 7.92 = 4152361 / 2 ^ 19"
  "lit float32 7.91 = 2073559 / 2 ^ 18"
  "lit float32 0.396 = 13287555 / 2 ^ 25"
  "lit float32 19.7 = 5164237 / 2 ^ 18"
  "lit float32 19.6 = 10276045 / 2 ^ 19"
  "lit float32 20 = 20"
  by (simp_all add: float_eval)


lemma exact_quotient_below_20: "lit float64 7.92 / lit float64 0.396 < 20"
  by (simp add: float_eval)



section \<open>Properties of the colours and the cuts\<close>

text \<open>On arrays of one length every operation is elementwise and nothing is raised.\<close>

lemma np_broadcast2_same:
  "length xs = length ys \<Longrightarrow> np_broadcast2 f xs ys = Inr (map2 f xs ys)"
  by (simp add: np_broadcast2_def)

lemma np_store_same: "length v = length field \<Longrightarrow> np_store ar field v = Inr (map (castf ar) v)"
  by (simp add: np_store_def np_assign_def)

lemmas np_ops = np_add_def np_sub_def np_less_def np_greater_def np_and_def
  times_lit_def plus_lit_def lit_minus_def minus_lit_def over_lit_def
  less_lit_def greater_lit_def np_abs_def

lemma c_par_expr_structured:
  assumes "length (modelmag_g tab) = n" "length (modelmag_r tab) = n" "length (modelmag_i tab) = n"
  shows "c_par_expr ar tab = Inr (map (\<lambda>k.
      addf ar (mulf ar (lit ar 0.7) (subf ar (modelmag_g tab ! k) (modelmag_r tab ! k)))
        (mulf ar (lit ar 1.2)
           (subf ar (subf ar (modelmag_r tab ! k) (modelmag_i tab ! k)) (lit ar 0.18))))
      [0..<n])"
  using assms
  by (auto simp add: c_par_expr_def np_ops np_broadcast2_same intro!: nth_equalityI)

lemma c_perp_expr_structured:
  assumes "length (modelmag_g tab) = n" "length (modelmag_r tab) = n" "length (modelmag_i tab) = n"
  shows "c_perp_expr ar tab = Inr (map (\<lambda>k.
      subf ar (subf ar (subf ar (modelmag_r tab ! k) (modelmag_i tab ! k))
                 (divf ar (subf ar (modelmag_g tab ! k) (modelmag_r tab ! k)) (lit ar 4)))
        (lit ar 0.18))
      [0..<n])"
  using assms
  by (auto simp add: c_perp_expr_def np_ops np_broadcast2_same intro!: nth_equalityI)

lemma d_perp_expr_structured:
  assumes "length (modelmag_g tab) = n" "length (modelmag_r tab) = n" "length (modelmag_i tab) = n"
  shows "d_perp_expr ar tab = Inr (map (\<lambda>k.
      subf ar (subf ar (modelmag_r tab ! k) (modelmag_i tab ! k))
        (divf ar (subf ar (modelmag_g tab ! k) (modelmag_r tab ! k)) (lit ar 8)))
      [0..<n])"
  using assms
  by (auto simp add: d_perp_expr_def np_ops np_broadcast2_same intro!: nth_equalityI)

lemma auxilliary_colors_structured:
  assumes "length (modelmag_g tab) = shape tab" "length (modelmag_r tab) = shape tab"
    "length (modelmag_i tab) = shape tab"
  shows "auxilliary_colors ar tab = Inr
     \<lparr>c_par = map (\<lambda>k. castf ar
        (addf ar (mulf ar (lit ar 0.7) (subf ar (modelmag_g tab ! k) (modelmag_r tab ! k)))
           (mulf ar (lit ar 1.2)
              (subf ar (subf ar (modelmag_r tab ! k) (modelmag_i tab ! k)) (lit ar 0.18)))))
        [0..<shape tab],
      c_perp = map (\<lambda>k. castf ar
        (subf ar (subf ar (subf ar (modelmag_r tab ! k) (modelmag_i tab ! k))
                   (divf ar (subf ar (modelmag_g tab ! k) (modelmag_r tab ! k)) (lit ar 4)))
           (lit ar 0.18)))
        [0..<shape tab],
      d_perp = map (\<lambda>k. castf ar
        (subf ar (subf ar (modelmag_r tab ! k) (modelmag_i tab ! k))
           (divf ar (subf ar (modelmag_g tab ! k) (modelmag_r tab ! k)) (lit ar 8))))
        [0..<shape tab]\<rparr>"
  by (simp add: auxilliary_colors_def Let_def c_par_expr_structured [OF assms]
      c_perp_expr_structured [OF assms] d_perp_expr_structured [OF assms] np_store_same)





text \<open>
  The test tables: their entries are the machine numbers for the decimals of the
  rows, and their colours and masks in double precision.
\<close>

lemma upt_3: "[0..<3] = [0, 1, 2]"
  by (simp add: upt_rec)

lemma replicate_3: "replicate 3 x = [x, x, x]"
  by (simp add: numeral_3_eq_3)

lemma boss_rows_literals:
  "boss_rows = \<lparr>shape = 3,
     devrad_i = map (lit float64) [7.91, 7.92, 2.0],
     modelmag_g = map (lit float64) [20.6, 20.6, 20.6],
     modelmag_r = map (lit float64) [19.0, 19.0, 19.0],
     modelmag_i = map (lit float64) [18.24, 18.24, 18.24],
     modelmag_z = map (lit float64) [18.0, 18.0, 18.0],
     cmodelmag_r = map (lit float64) [19.0, 19.0, 19.7],
     cmodelmag_i = map (lit float64) [18.3, 18.3, 18.3],
     psfmag_r = map (lit float64) [19.5, 19.5, 20.5],
     psfmag_i = map (lit float64) [19.0, 19.0, 19.0],
     psfmag_z = map (lit float64) [19.0, 19.0, 19.0],
     fiber2mag_i = map (lit float64) [21.0, 21.0, 21.0]\<rparr>"
  by (simp add: boss_rows_def replicate_3 float_eval)


lemma structured_boss_rows: "structured boss_rows"
  by (simp add: structured_def boss_rows_def)




lemma auxilliary_colors_boss_rows: "auxilliary_colors float64 boss_rows = Inr boss_aux"
  apply (simp add: auxilliary_colors_structured boss_rows_def boss_aux_def upt_3 replicate_3)
  apply (simp add: float_eval)
  done

















text \<open>
  C9, as stated, fails: \<open>auxilliary_colors\<close> checks no lengths.  Where a \<open>g\<close> column
  of one entry meets \<open>r\<close> and \<open>i\<close> columns of two, the array arithmetic broadcasts the
  single entry and a result is returned.
\<close>

theorem auxilliary_colors_broadcasts:
  "length (modelmag_g ragged_rows) \<noteq> length (modelmag_r ragged_rows) \<and>
   auxilliary_colors float64 ragged_rows = Inr
     \<lparr>c_par = [4089268461652417 / 2 ^ 51, 5751096724152125 / 2 ^ 51],
      c_perp = [3242591731706779 / 2 ^ 54, - (8196551321814309 / 2 ^ 54)],
      d_perp = [630503947831871 / 2 ^ 50, 126663739519795 / 2 ^ 50]\<rparr>"
  apply (simp add: ragged_rows_def boss_rows_def auxilliary_colors_def c_par_expr_def
      c_perp_expr_def d_perp_expr_def np_ops np_broadcast2_def np_store_def np_assign_def)
  apply (simp add: float_eval)
  done

text \<open>
  C9, amended.  \<open>auxilliary_colors\<close> takes one table and validates nothing itself.  On
  a structured table (every column of the length of the table) it never fails and
  returns colours of that length.  On \<open>g\<close>, \<open>r\<close>, \<open>i\<close> columns whose lengths disagree,
  none of them of length one, the array arithmetic raises \<^verbatim>\<open>ValueError\<close> and no
  result is returned.  Both hold in every arithmetic.
\<close>

theorem auxilliary_colors_shapes:
  "(structured tab \<longrightarrow> (\<exists>aux. auxilliary_colors ar tab = Inr aux \<and>
        length (c_par aux) = shape tab \<and> length (c_perp aux) = shape tab \<and>
        length (d_perp aux) = shape tab)) \<and>
   (length (modelmag_g tab) \<noteq> 1 \<and> length (modelmag_r tab) \<noteq> 1 \<and>
    length (modelmag_i tab) \<noteq> 1 \<and>
    \<not> (length (modelmag_g tab) = length (modelmag_r tab) \<and>
       length (modelmag_r tab) = length (modelmag_i tab)) \<longrightarrow>
      auxilliary_colors ar tab = Inl ValueError)"
proof (intro conjI impI)
  assume "structured tab"
  then have len: "length (modelmag_g tab) = shape tab"
    "length (modelmag_r tab) = shape tab" "length (modelmag_i tab) = shape tab"
    by (simp_all add: structured_def)
  show "\<exists>aux. auxilliary_colors ar tab = Inr aux \<and>
        length (c_par aux) = shape tab \<and> length (c_perp aux) = shape tab \<and>
        length (d_perp aux) = shape tab"
    by (simp add: auxilliary_colors_structured [OF len])
next
  assume r: "length (modelmag_g tab) \<noteq> 1 \<and> length (modelmag_r tab) \<noteq> 1 \<and>
    length (modelmag_i tab) \<noteq> 1 \<and>
    \<not> (length (modelmag_g tab) = length (modelmag_r tab) \<and>
       length (modelmag_r tab) = length (modelmag_i tab))"
  then have "c_par_expr ar tab = Inl ValueError"
    by (auto simp add: c_par_expr_def np_sub_def np_broadcast2_def)
  then show "auxilliary_colors ar tab = Inl ValueError"
    by (simp add: auxilliary_colors_def Let_def)
qed

text \<open>The structured test table, and a table whose \<open>g\<close> column has two entries of three.\<close>

theorem auxilliary_colors_shapes_witness:
  "structured boss_rows \<and> auxilliary_colors float64 boss_rows = Inr boss_aux \<and>
   length (modelmag_g mismatched_rows) = 2 \<and> length (modelmag_r mismatched_rows) = 3 \<and>
   length (modelmag_i mismatched_rows) = 3 \<and>
   auxilliary_colors float64 mismatched_rows = Inl ValueError"
proof -
  have "length (modelmag_g mismatched_rows) = 2" "length (modelmag_r mismatched_rows) = 3"
    "length (modelmag_i mismatched_rows) = 3"
    by (simp_all add: mismatched_rows_def boss_rows_def)
  then show ?thesis
    using auxilliary_colors_shapes [of mismatched_rows float64]
      auxilliary_colors_shapes [of boss_rows float64]
      structured_boss_rows auxilliary_colors_boss_rows
    by simp
qed

section \<open>Properties of the paths\<close>

text \<open>The decimal numeral of a number, one digit at a time.\<close>

lemma str_nat_digit: "n < 10 \<Longrightarrow> str_nat n = [digit n]"
  by (simp add: str_nat.simps)

lemma str_nat_more: "10 \<le> n \<Longrightarrow> str_nat n = str_nat (n div 10) @ [digit (n mod 10)]"
  by (subst str_nat.simps) simp

lemma replicate_2: "replicate 2 x = [x, x]"
  by (simp add: numeral_2_eq_2)

lemmas path_simps = vopath_def fm_def format_0d_def format_d_def str_nat_digit str_nat_more
  digit_def Let_def

text \<open>
  The paths the notebook itself asks for: \<^verbatim>\<open>plot_spectrum(4202, 55445, 3)\<close> and
  \<^verbatim>\<open>display_frame(6122, 1, 13, 'r')\<close>, whose title is
  \<^verbatim>\<open>frame-r-006122-1-0013.fits\<close>; and a plate number that needs padding.
\<close>

lemma vopath_4202: "vopath ''sdss_dr14://'' ''v5_10_0'' 4202 55445 =
    ''sdss_dr14://sdss/spectro/redux/v5_10_0/4202/spPlate-4202-55445.fits''"
  by (simp add: path_simps)

lemma vopath_pad: "vopath ''sdss_dr14://'' ''26'' 266 51630 =
    ''sdss_dr14://sdss/spectro/redux/26/0266/spPlate-0266-51630.fits''"
  by (simp add: path_simps)

lemma fm_6122: "fm ''sdss_dr14://'' 6122 1 ''r'' 13 =
    ''sdss_dr14://eboss/photoObj/frames/301/6122/1/frame-r-006122-1-0013.fits.bz2''"
  by (simp add: path_simps replicate_2)

section \<open>Properties of the spectrum extraction\<close>

text \<open>
  Rows by fibre number, counted from the end when the index is negative, and what a
  call returns once every lookup has succeeded.
\<close>

lemma index_from_end:
  fixes j n :: int
  assumes "- n \<le> j" and "j < 0"
  shows "j mod n = n + j"
proof -
  from assms have "0 \<le> n + j" "n + j < n" by simp_all
  then have "(n + j) mod n = n + j" by (rule mod_pos_pos_trivial)
  moreover have "(n + j) mod n = j mod n" by simp
  ultimately show ?thesis by (simp only:)
qed

lemma row_at_valid:
  assumes "- int (length rows) < fiber" and "fiber \<le> int (length rows)"
  shows "row_at (Some rows) (fiber - 1) = Inr (rows ! nat ((fiber - 1) mod int (length rows)))"
proof (cases "0 \<le> fiber - 1")
  case True
  with assms(2) have "(fiber - 1) mod int (length rows) = fiber - 1"
    by (intro mod_pos_pos_trivial) simp_all
  with True assms(2) show ?thesis
    by (simp add: row_at_def Let_def)
next
  case False
  with assms(1) have "(fiber - 1) mod int (length rows) = int (length rows) + (fiber - 1)"
    by (intro index_from_end) simp_all
  with False assms(1) show ?thesis
    by (simp add: row_at_def Let_def)
qed

lemma wavelength_entries:
  "map (\<lambda>l. 10 powr l) (scalar_plus c0 (scalar_times c1 (np_arange (real N)))) =
     map (\<lambda>index. 10 powr (c0 + c1 * real index)) [0..<N]"
  by (simp add: scalar_plus_def scalar_times_def np_arange_def)

lemma extract_spectrum_rows:
  assumes "fits_open (vopath sas run2d plate mjd) = Inr hdulist"
    and "7 \<le> length hdulist"
    and "row_at (data (hdulist ! 0)) (fiber - 1) = Inr flux"
      "row_at (data (hdulist ! 1)) (fiber - 1) = Inr ivar"
      "row_at (data (hdulist ! 6)) (fiber - 1) = Inr sky"
    and "header (hdulist ! 0) ''COEFF0'' = Some c0" "header (hdulist ! 0) ''COEFF1'' = Some c1"
      "header (hdulist ! 0) ''NAXIS1'' = Some naxis1"
  shows "extract_spectrum fits_open plate mjd fiber run2d release sas =
    Inr (map (\<lambda>l. 10 powr l) (scalar_plus c0 (scalar_times c1 (np_arange naxis1))),
         flux, ivar, sky)"
proof -
  from assms(2) have "getitem hdulist 0 = Inr (hdulist ! 0)"
    "getitem hdulist 1 = Inr (hdulist ! 1)" "getitem hdulist 6 = Inr (hdulist ! 6)"
    by (auto simp add: getitem_def)
  moreover from assms(6-8) have "getkey (header (hdulist ! 0)) ''COEFF0'' = Inr c0"
    "getkey (header (hdulist ! 0)) ''COEFF1'' = Inr c1"
    "getkey (header (hdulist ! 0)) ''NAXIS1'' = Inr naxis1"
    by (simp_all add: getkey_def)
  ultimately show ?thesis
    by (simp only: extract_spectrum_def assms(1,3-5) and_then.simps Let_def)
qed

lemma extract_spectrum_success:
  assumes "fits_open (vopath sas run2d plate mjd) = Inr hdulist"
    and "7 \<le> length hdulist"
    and "data (hdulist ! 0) = Some d0" "data (hdulist ! 1) = Some d1"
      "data (hdulist ! 6) = Some d6"
    and "- int (length d0) < fiber" "fiber \<le> int (length d0)"
      "- int (length d1) < fiber" "fiber \<le> int (length d1)"
      "- int (length d6) < fiber" "fiber \<le> int (length d6)"
    and "header (hdulist ! 0) ''COEFF0'' = Some c0" "header (hdulist ! 0) ''COEFF1'' = Some c1"
      "header (hdulist ! 0) ''NAXIS1'' = Some naxis1"
  shows "extract_spectrum fits_open plate mjd fiber run2d release sas =
    Inr (map (\<lambda>l. 10 powr l) (scalar_plus c0 (scalar_times c1 (np_arange naxis1))),
         d0 ! nat ((fiber - 1) mod int (length d0)),
         d1 ! nat ((fiber - 1) mod int (length d1)),
         d6 ! nat ((fiber - 1) mod int (length d6)))"
proof -
  from assms(3-11)
  have "row_at (data (hdulist ! 0)) (fiber - 1) = Inr (d0 ! nat ((fiber - 1) mod int (length d0)))"
    "row_at (data (hdulist ! 1)) (fiber - 1) = Inr (d1 ! nat ((fiber - 1) mod int (length d1)))"
    "row_at (data (hdulist ! 6)) (fiber - 1) = Inr (d6 ! nat ((fiber - 1) mod int (length d6)))"
    by (simp_all only: row_at_valid)
  from extract_spectrum_rows [where fits_open = fits_open, OF assms(1,2) this assms(12-14)]
  show ?thesis .
qed

text \<open>
  C4.  On a well-formed file (seven units at least, data in units 0, 1 and 6, the fibre
  number an index of their rows, \<open>COEFF0\<close>, \<open>COEFF1\<close> and \<open>NAXIS1\<close> in the header of
  unit 0, and \<open>NAXIS1\<close> the length \<open>N\<close> of the flux row) \<open>extract_spectrum\<close> returns, and
  its wavelength array has \<open>N\<close> entries, entry \<open>index\<close> being
  \<open>10 ** (COEFF0 + COEFF1 * index)\<close>.  The fibre numbers covered are all those for which
  the code returns: \<open>1 \<le> fiber \<le> rows\<close>, and \<open>-rows < fiber \<le> 0\<close>, which Python counts
  from the last row.
\<close>

theorem extract_spectrum_wavelength:
  assumes "fits_open (vopath sas run2d plate mjd) = Inr hdulist"
    and "7 \<le> length hdulist"
    and "data (hdulist ! 0) = Some d0" "data (hdulist ! 1) = Some d1"
      "data (hdulist ! 6) = Some d6"
    and "- int (length d0) < fiber" "fiber \<le> int (length d0)"
      "- int (length d1) < fiber" "fiber \<le> int (length d1)"
      "- int (length d6) < fiber" "fiber \<le> int (length d6)"
    and "header (hdulist ! 0) ''COEFF0'' = Some COEFF0"
      "header (hdulist ! 0) ''COEFF1'' = Some COEFF1"
      "header (hdulist ! 0) ''NAXIS1'' = Some (real N)"
    and "length (d0 ! nat ((fiber - 1) mod int (length d0))) = N"
  shows "\<exists>wavelength flux ivar sky.
      extract_spectrum fits_open plate mjd fiber run2d release sas =
        Inr (wavelength, flux, ivar, sky) \<and>
      flux = d0 ! nat ((fiber - 1) mod int (length d0)) \<and> length flux = N \<and>
      length wavelength = N \<and>
      (\<forall>index<N. wavelength ! index = 10 powr (COEFF0 + COEFF1 * real index))"
  using assms(15)
  by (simp add: extract_spectrum_success [where fits_open = fits_open and release = release,
        OF assms(1-14)] wavelength_entries)

text \<open>What a successful call tells about its steps.\<close>

lemma and_then_Inr:
  "and_then m f = Inr y \<longleftrightarrow> (\<exists>x. m = Inr x \<and> f x = Inr y)"
  by (cases m) simp_all

lemma getitem_Inr: "getitem xs k = Inr x \<Longrightarrow> x = xs ! k"
  by (simp add: getitem_def split: if_splits)

lemma getkey_Inr: "getkey d key = Inr v \<longleftrightarrow> d key = Some v"
  by (simp add: getkey_def split: option.splits)

lemma row_at_length:
  assumes "row_at (data h) j = Inr row" and "rows_of_length N h"
  shows "length row = N"
proof -
  from assms(1) obtain rows where d: "data h = Some rows" and "row \<in> set rows"
    by (auto simp add: row_at_def Let_def split: option.splits if_splits)
  with assms(2) show ?thesis
    by (simp add: rows_of_length_def list_all_iff)
qed

lemma np_arange_length: "length (np_arange (real N)) = N"
  by (simp add: np_arange_def)

text \<open>
  C8, amended.  For every successful extraction on a file whose units 0, 1 and 6 have
  rows of one length \<open>N\<close> and whose unit 0 has \<open>NAXIS1 = N\<close>, the four returned arrays
  all have length \<open>N\<close>.
\<close>

theorem extract_spectrum_lengths:
  assumes "extract_spectrum fits_open plate mjd fiber run2d release sas =
      Inr (wavelength, flux, ivar, sky)"
    and "fits_open (vopath sas run2d plate mjd) = Inr hdulist"
    and "rows_of_length N (hdulist ! 0)" "rows_of_length N (hdulist ! 1)"
      "rows_of_length N (hdulist ! 6)"
    and "header (hdulist ! 0) ''NAXIS1'' = Some (real N)"
  shows "length wavelength = N \<and> length flux = N \<and> length ivar = N \<and> length sky = N"
proof -
  from assms(1,2) obtain h0 h0' h1 h6 c0 c1 n1 where
    g: "getitem hdulist 0 = Inr h0" "getitem hdulist 0 = Inr h0'"
      "getitem hdulist 1 = Inr h1" "getitem hdulist 6 = Inr h6" and
    r: "row_at (data h0') (fiber - 1) = Inr flux" "row_at (data h1) (fiber - 1) = Inr ivar"
      "row_at (data h6) (fiber - 1) = Inr sky" and
    k: "getkey (header h0) ''NAXIS1'' = Inr n1" and
    w: "wavelength = map (\<lambda>l. 10 powr l) (scalar_plus c0 (scalar_times c1 (np_arange n1)))"
    by (auto simp add: extract_spectrum_def and_then_Inr Let_def)
  from g have h: "h0 = hdulist ! 0" "h0' = hdulist ! 0" "h1 = hdulist ! 1" "h6 = hdulist ! 6"
    by (simp_all add: getitem_Inr)
  from k h assms(6) have "n1 = real N"
    by (simp add: getkey_Inr)
  with w have "length wavelength = N"
    by (simp add: scalar_plus_def scalar_times_def np_arange_length)
  moreover from r h assms(3-5) have "length flux = N" "length ivar = N" "length sky = N"
    by (simp_all add: row_at_length)
  ultimately show ?thesis by simp
qed

text \<open>
  C7, amended.  On a decoded file with data in units 0, 1 and 6, a fibre number greater
  than the number of rows of one of these units, or at most minus that number, makes
  \<open>extract_spectrum\<close> fail with the \<^verbatim>\<open>IndexError\<close> of the array indexing; the
  function validates nothing itself.
\<close>

theorem extract_spectrum_fiber_outside:
  assumes "fits_open (vopath sas run2d plate mjd) = Inr hdulist"
    and "7 \<le> length hdulist"
    and "data (hdulist ! 0) = Some d0" "data (hdulist ! 1) = Some d1"
      "data (hdulist ! 6) = Some d6"
    and "(int (length d0) < fiber \<or> fiber \<le> - int (length d0)) \<or>
         (int (length d1) < fiber \<or> fiber \<le> - int (length d1)) \<or>
         (int (length d6) < fiber \<or> fiber \<le> - int (length d6))"
  shows "extract_spectrum fits_open plate mjd fiber run2d release sas = Inl IndexError"
proof -
  from assms(2) have g: "getitem hdulist 0 = Inr (hdulist ! 0)"
    "getitem hdulist 1 = Inr (hdulist ! 1)" "getitem hdulist 6 = Inr (hdulist ! 6)"
    by (auto simp add: getitem_def)
  have c: "\<And>rows. row_at (Some rows) (fiber - 1) = Inl IndexError \<or>
      (\<exists>row. row_at (Some rows) (fiber - 1) = Inr row \<and>
         \<not> (int (length rows) < fiber \<or> fiber \<le> - int (length rows)))"
    by (auto simp add: row_at_def Let_def)
  from c [of d0] c [of d1] c [of d6] assms(6)
  have "and_then (row_at (Some d0) (fiber - 1)) (\<lambda>flux.
          and_then (row_at (Some d1) (fiber - 1)) (\<lambda>ivar.
          and_then (row_at (Some d6) (fiber - 1)) (\<lambda>sky. f flux ivar sky))) = Inl IndexError" for f :: "real list \<Rightarrow> real list \<Rightarrow> real list \<Rightarrow> error + 'z"
    by auto
  then show ?thesis
    unfolding extract_spectrum_def assms(1) and_then.simps g assms(3-5) .
qed
text \<open>The synthetic files, unit by unit.\<close>

lemma serve_4202:
  "serve file (vopath ''sdss_dr14://'' ''v5_10_0'' 4202 55445) = Inr file"
  by (simp add: serve_def vopath_4202)

lemma synthetic_plate_units:
  "7 \<le> length synthetic_plate"
  "data (synthetic_plate ! 0) = Some [[1, 2, 3, 4], [5, 6, 7, 8]]"
  "data (synthetic_plate ! 1) = Some [[0.1, 0.2, 0.3, 0.4], [0.5, 0.6, 0.7, 0.8]]"
  "data (synthetic_plate ! 6) = Some [[10, 20, 30, 40], [50, 60, 70, 80]]"
  "header (synthetic_plate ! 0) ''COEFF0'' = Some 3.5"
  "header (synthetic_plate ! 0) ''COEFF1'' = Some 0.0001"
  "header (synthetic_plate ! 0) ''NAXIS1'' = Some (real 4)"
  by (simp_all add: synthetic_plate_def plate_unit_def)

lemma uneven_plate_units:
  "7 \<le> length uneven_plate"
  "data (uneven_plate ! 0) = Some [[1, 2, 3, 4], [5, 6, 7, 8]]"
  "data (uneven_plate ! 1) = Some [[0.1, 0.2, 0.3], [0.5, 0.6, 0.7]]"
  "data (uneven_plate ! 6) = Some [[10, 20, 30, 40], [50, 60, 70, 80]]"
  "header (uneven_plate ! 0) ''COEFF0'' = Some 3.5"
  "header (uneven_plate ! 0) ''COEFF1'' = Some 0.0001"
  "header (uneven_plate ! 0) ''NAXIS1'' = Some (real 4)"
  by (simp_all add: uneven_plate_def synthetic_plate_def plate_unit_def)

lemma wavelength_4:
  "map (\<lambda>l. 10 powr l) (scalar_plus 3.5 (scalar_times 0.0001 (np_arange (real 4)))) =
     [10 powr 3.5, 10 powr 3.5001, 10 powr 3.5002, 10 powr 3.5003]"
  by (simp add: scalar_plus_def scalar_times_def np_arange_def upt_rec)

lemma synthetic_plate_last_rows:
  "row_at (data (synthetic_plate ! 0)) (0 - 1) = Inr [5, 6, 7, 8]"
  "row_at (data (synthetic_plate ! 1)) (0 - 1) = Inr [0.5, 0.6, 0.7, 0.8]"
  "row_at (data (synthetic_plate ! 6)) (0 - 1) = Inr [50, 60, 70, 80]"
  "row_at (data (synthetic_plate ! 0)) (2 - 1) = Inr [5, 6, 7, 8]"
  "row_at (data (synthetic_plate ! 1)) (2 - 1) = Inr [0.5, 0.6, 0.7, 0.8]"
  "row_at (data (synthetic_plate ! 6)) (2 - 1) = Inr [50, 60, 70, 80]"
  by (simp_all add: synthetic_plate_units row_at_def del: One_nat_def)

lemma uneven_plate_first_rows:
  "row_at (data (uneven_plate ! 0)) (1 - 1) = Inr [1, 2, 3, 4]"
  "row_at (data (uneven_plate ! 1)) (1 - 1) = Inr [0.1, 0.2, 0.3]"
  "row_at (data (uneven_plate ! 6)) (1 - 1) = Inr [10, 20, 30, 40]"
  by (simp_all add: uneven_plate_units row_at_def del: One_nat_def)

text \<open>
  Fibre 1 of the synthetic plate: \<open>COEFF0 = 3.5\<close>, \<open>COEFF1 = 0.0001\<close> and four pixels
  give the wavelengths \<open>10 ** 3.5\<close>, \<open>10 ** 3.5001\<close>, \<open>10 ** 3.5002\<close>, \<open>10 ** 3.5003\<close>.
\<close>

theorem extract_spectrum_wavelength_witness:
  "\<exists>wavelength flux ivar sky.
     extract_spectrum (serve synthetic_plate) 4202 55445 1 ''v5_10_0'' 14 ''sdss_dr14://'' =
       Inr (wavelength, flux, ivar, sky) \<and>
     flux = [1, 2, 3, 4] \<and> length wavelength = 4 \<and>
     wavelength ! 0 = 10 powr 3.5 \<and> wavelength ! 1 = 10 powr 3.5001 \<and>
     wavelength ! 2 = 10 powr 3.5002 \<and> wavelength ! 3 = 10 powr 3.5003"
proof -
  have f: "- int (length [[1, 2, 3, 4], [5, 6, 7, 8::real]]) < 1"
    "1 \<le> int (length [[1, 2, 3, 4], [5, 6, 7, 8::real]])"
    "- int (length [[0.1, 0.2, 0.3, 0.4], [0.5, 0.6, 0.7, 0.8::real]]) < 1"
    "1 \<le> int (length [[0.1, 0.2, 0.3, 0.4], [0.5, 0.6, 0.7, 0.8::real]])"
    "- int (length [[10, 20, 30, 40], [50, 60, 70, 80::real]]) < 1"
    "1 \<le> int (length [[10, 20, 30, 40], [50, 60, 70, 80::real]])"
    by simp_all
  have n: "length ([[1, 2, 3, 4], [5, 6, 7, 8::real]] !
      nat ((1 - 1) mod int (length [[1, 2, 3, 4], [5, 6, 7, 8::real]]))) = 4"
    by simp
  from extract_spectrum_wavelength [where fits_open = "serve synthetic_plate"
      and release = 14, OF serve_4202 synthetic_plate_units(1-4) f synthetic_plate_units(5-7) n]
  obtain wavelength flux ivar sky where
    e: "extract_spectrum (serve synthetic_plate) 4202 55445 1 ''v5_10_0'' 14 ''sdss_dr14://'' =
       Inr (wavelength, flux, ivar, sky)" and
    x: "flux = [[1, 2, 3, 4], [5, 6, 7, 8]] !
      nat ((1 - 1) mod int (length [[1, 2, 3, 4], [5, 6, 7, 8::real]]))" and
    l: "length wavelength = 4" and
    w: "\<And>index. index < 4 \<Longrightarrow> wavelength ! index = 10 powr (3.5 + 0.0001 * real index)"
    by blast
  from w [of 0] w [of 1] w [of 2] w [of 3]
  have "wavelength ! 0 = 10 powr 3.5" "wavelength ! 1 = 10 powr 3.5001"
    "wavelength ! 2 = 10 powr 3.5002" "wavelength ! 3 = 10 powr 3.5003"
    by simp_all
  moreover from x have "flux = [1, 2, 3, 4]" by simp
  ultimately show ?thesis using e l by blast
qed

text \<open>
  C7, as stated, fails: fibre \<open>0\<close> lies outside \<open>1 \<le> fiber \<le> 2\<close>, yet the row index
  \<open>-1\<close> is an index of Python, the last row, and the call returns the data of fibre 2.
\<close>

theorem extract_spectrum_fiber_0:
  "(0::int) < 1 \<and>
   extract_spectrum (serve synthetic_plate) 4202 55445 0 ''v5_10_0'' 14 ''sdss_dr14://'' =
     Inr ([10 powr 3.5, 10 powr 3.5001, 10 powr 3.5002, 10 powr 3.5003],
          [5, 6, 7, 8], [0.5, 0.6, 0.7, 0.8], [50, 60, 70, 80])"
  using extract_spectrum_rows [where fits_open = "serve synthetic_plate" and release = 14,
      OF serve_4202 synthetic_plate_units(1) synthetic_plate_last_rows(1-3)
      synthetic_plate_units(5-7)]
  by (simp only: wavelength_4) simp

text \<open>Fibres \<open>3\<close> and \<open>-2\<close> of the two-fibre plate.\<close>

theorem extract_spectrum_fiber_outside_witness:
  "extract_spectrum (serve synthetic_plate) 4202 55445 3 ''v5_10_0'' 14 ''sdss_dr14://'' =
     Inl IndexError \<and>
   extract_spectrum (serve synthetic_plate) 4202 55445 (- 2) ''v5_10_0'' 14 ''sdss_dr14://'' =
     Inl IndexError"
proof -
  have "(int (length [[1, 2, 3, 4], [5, 6, 7, 8::real]]) < 3 \<or>
           3 \<le> - int (length [[1, 2, 3, 4], [5, 6, 7, 8::real]])) \<or>
        (int (length [[0.1, 0.2, 0.3, 0.4], [0.5, 0.6, 0.7, 0.8::real]]) < 3 \<or>
           3 \<le> - int (length [[0.1, 0.2, 0.3, 0.4], [0.5, 0.6, 0.7, 0.8::real]])) \<or>
        (int (length [[10, 20, 30, 40], [50, 60, 70, 80::real]]) < 3 \<or>
           3 \<le> - int (length [[10, 20, 30, 40], [50, 60, 70, 80::real]]))"
    by simp
  from extract_spectrum_fiber_outside [where fits_open = "serve synthetic_plate"
      and release = 14, OF serve_4202 synthetic_plate_units(1-4) this]
  have a: "extract_spectrum (serve synthetic_plate) 4202 55445 3 ''v5_10_0'' 14
      ''sdss_dr14://'' = Inl IndexError" .
  have "(int (length [[1, 2, 3, 4], [5, 6, 7, 8::real]]) < - 2 \<or>
           - 2 \<le> - int (length [[1, 2, 3, 4], [5, 6, 7, 8::real]])) \<or>
        (int (length [[0.1, 0.2, 0.3, 0.4], [0.5, 0.6, 0.7, 0.8::real]]) < - 2 \<or>
           - 2 \<le> - int (length [[0.1, 0.2, 0.3, 0.4], [0.5, 0.6, 0.7, 0.8::real]])) \<or>
        (int (length [[10, 20, 30, 40], [50, 60, 70, 80::real]]) < - 2 \<or>
           - 2 \<le> - int (length [[10, 20, 30, 40], [50, 60, 70, 80::real]]))"
    by simp
  from extract_spectrum_fiber_outside [where fits_open = "serve synthetic_plate"
      and release = 14, OF serve_4202 synthetic_plate_units(1-4) this]
  have b: "extract_spectrum (serve synthetic_plate) 4202 55445 (- 2) ''v5_10_0'' 14
      ''sdss_dr14://'' = Inl IndexError" .
  from a b show ?thesis by simp
qed

text \<open>
  C8, as stated, fails: on the file whose unit 1 has rows of three pixels the call
  succeeds and returns an inverse variance shorter than the flux.
\<close>

theorem extract_spectrum_uneven:
  "extract_spectrum (serve uneven_plate) 4202 55445 1 ''v5_10_0'' 14 ''sdss_dr14://'' =
     Inr ([10 powr 3.5, 10 powr 3.5001, 10 powr 3.5002, 10 powr 3.5003],
          [1, 2, 3, 4], [0.1, 0.2, 0.3], [10, 20, 30, 40]) \<and>
   length [1, 2, 3, 4 :: real] \<noteq> length [0.1, 0.2, 0.3 :: real]"
  using extract_spectrum_rows [where fits_open = "serve uneven_plate" and release = 14,
      OF serve_4202 uneven_plate_units(1) uneven_plate_first_rows uneven_plate_units(5-7)]
  by (simp only: wavelength_4) simp

text \<open>Fibre 2 of the synthetic plate.\<close>

lemma extract_spectrum_synthetic:
  "extract_spectrum (serve synthetic_plate) 4202 55445 2 ''v5_10_0'' 14 ''sdss_dr14://'' =
     Inr ([10 powr 3.5, 10 powr 3.5001, 10 powr 3.5002, 10 powr 3.5003],
          [5, 6, 7, 8], [0.5, 0.6, 0.7, 0.8], [50, 60, 70, 80])"
  using extract_spectrum_rows [where fits_open = "serve synthetic_plate" and release = 14,
      OF serve_4202 synthetic_plate_units(1) synthetic_plate_last_rows(4-6)
      synthetic_plate_units(5-7)]
  by (simp only: wavelength_4)

text \<open>The four arrays of fibre 2 of the synthetic plate have four entries each.\<close>

theorem extract_spectrum_lengths_witness:
  "extract_spectrum (serve synthetic_plate) 4202 55445 2 ''v5_10_0'' 14 ''sdss_dr14://'' =
     Inr ([10 powr 3.5, 10 powr 3.5001, 10 powr 3.5002, 10 powr 3.5003],
          [5, 6, 7, 8], [0.5, 0.6, 0.7, 0.8], [50, 60, 70, 80]) \<and>
   rows_of_length 4 (synthetic_plate ! 0) \<and> rows_of_length 4 (synthetic_plate ! 1) \<and>
   rows_of_length 4 (synthetic_plate ! 6) \<and>
   length [10 powr 3.5, 10 powr 3.5001, 10 powr 3.5002, 10 powr 3.5003 :: real] = 4 \<and>
   length [5, 6, 7, 8 :: real] = 4 \<and> length [0.5, 0.6, 0.7, 0.8 :: real] = 4 \<and>
   length [50, 60, 70, 80 :: real] = 4"
proof -
  have r: "rows_of_length 4 (synthetic_plate ! 0)" "rows_of_length 4 (synthetic_plate ! 1)"
    "rows_of_length 4 (synthetic_plate ! 6)"
    by (simp_all add: rows_of_length_def synthetic_plate_units del: One_nat_def)
  from extract_spectrum_lengths [OF extract_spectrum_synthetic serve_4202 r
      synthetic_plate_units(7)] r extract_spectrum_synthetic
  show ?thesis by blast
qed
section \<open>Properties of the frames\<close>

text \<open>The conversion on a band of the table, and on any other band.\<close>

lemma fm_frame_6122: "fm ''sdss_dr14://'' 6122 1 ''r'' 13 = frame_6122"
  by (simp add: fm_6122 frame_6122_def)

lemma asinh_image_known:
  assumes "[''u'' \<mapsto> 1.4 / 10 ^ 10, ''g'' \<mapsto> 0.9 / 10 ^ 10, ''r'' \<mapsto> 1.2 / 10 ^ 10,
            ''i'' \<mapsto> 1.8 / 10 ^ 10, ''z'' \<mapsto> 7.4 / 10 ^ 10] band = Some (b::real)"
  shows "asinh_image img band =
    Inr (map (map (\<lambda>x. - 2.5 / ln 10 * (arsinh (x * (1 / 10 ^ 9) / (2 * b)) + ln b))) img)"
  unfolding asinh_image_def Let_def getkey_def assms
  by simp

lemma asinh_image_unknown:
  "band \<notin> {''u'', ''g'', ''r'', ''i'', ''z''} \<Longrightarrow> asinh_image img band = Inl KeyError"
  by (simp add: asinh_image_def Let_def getkey_def)

text \<open>
  C5.  For every band of \<open>u, g, r, i, z\<close>, with \<open>b\<close> its entry in the table
  \<open>{u: 1.4e-10, g: 0.9e-10, r: 1.2e-10, i: 1.8e-10, z: 7.4e-10}\<close>, and every image,
  \<open>asinh_image\<close> returns elementwise \<open>C * (asinh(image*1e-9 / (2*b)) + ln(b))\<close> with
  \<open>C = -2.5/ln(10)\<close>, which is \<open>C * ln(b)\<close> on a pixel \<open>0\<close>; for every other band it
  fails, with the \<^verbatim>\<open>KeyError\<close> of the dictionary lookup (the specification's
  InvalidBand).
\<close>

theorem asinh_image_bands:
  "((band, b) \<in> set [(''u'', 1.4 / 10 ^ 10), (''g'', 0.9 / 10 ^ 10), (''r'', 1.2 / 10 ^ 10),
        (''i'', 1.8 / 10 ^ 10), (''z'', 7.4 / 10 ^ 10)] \<longrightarrow>
      asinh_image img band =
        Inr (map (map (\<lambda>x. - 2.5 / ln 10 * (arsinh (x * (1 / 10 ^ 9) / (2 * b)) + ln b))) img) \<and>
      asinh_image [[0]] band = Inr [[- 2.5 / ln 10 * ln b]]) \<and>
   (band \<notin> {''u'', ''g'', ''r'', ''i'', ''z''} \<longrightarrow> asinh_image img band = Inl KeyError)"
proof (intro conjI impI)
  assume "(band, b) \<in> set [(''u'', 1.4 / 10 ^ 10), (''g'', 0.9 / 10 ^ 10),
      (''r'', 1.2 / 10 ^ 10), (''i'', 1.8 / 10 ^ 10), (''z'', 7.4 / 10 ^ 10)]"
  then have k: "[''u'' \<mapsto> 1.4 / 10 ^ 10, ''g'' \<mapsto> 0.9 / 10 ^ 10, ''r'' \<mapsto> 1.2 / 10 ^ 10,
            ''i'' \<mapsto> 1.8 / 10 ^ 10, ''z'' \<mapsto> 7.4 / 10 ^ 10] band = Some b"
    by auto
  show "asinh_image img band =
      Inr (map (map (\<lambda>x. - 2.5 / ln 10 * (arsinh (x * (1 / 10 ^ 9) / (2 * b)) + ln b))) img)"
    by (rule asinh_image_known [OF k])
  show "asinh_image [[0]] band = Inr [[- 2.5 / ln 10 * ln b]]"
    by (simp add: asinh_image_known [OF k])
next
  assume "band \<notin> {''u'', ''g'', ''r'', ''i'', ''z''}"
  then show "asinh_image img band = Inl KeyError"
    by (rule asinh_image_unknown)
qed

text \<open>The band \<open>r\<close> on the pixels \<open>0\<close> and \<open>1\<close>, and the band \<open>x\<close>.\<close>

theorem asinh_image_bands_witness:
  "asinh_image [[0, 1]] ''r'' =
     Inr [[- 2.5 / ln 10 * (arsinh (0 * (1 / 10 ^ 9) / (2 * (1.2 / 10 ^ 10))) + ln (1.2 / 10 ^ 10)),
           - 2.5 / ln 10 * (arsinh (1 * (1 / 10 ^ 9) / (2 * (1.2 / 10 ^ 10))) + ln (1.2 / 10 ^ 10))]] \<and>
   asinh_image [[0]] ''r'' = Inr [[- 2.5 / ln 10 * ln (1.2 / 10 ^ 10)]] \<and>
   asinh_image [[0, 1]] ''x'' = Inl KeyError"
  using asinh_image_bands [of "''r''" "1.2 / 10 ^ 10" "[[0, 1]]"]
    asinh_image_bands [of "''x''" 0 "[[0, 1]]"]
  by simp

text \<open>One call of \<open>extract_frame\<close>: on a cached path, on the cache, and by its result.\<close>

lemma extract_frame_cached:
  "extract_frame_cache s (fm sas run camcol band field) = Some img \<Longrightarrow>
     extract_frame sc_get decode run camcol field band sas s = (Inr img, s)"
  by (simp add: extract_frame_def Let_def getkey_def)

lemma extract_frame_keeps:
  "extract_frame sc_get decode run camcol field band sas s = (r, s') \<Longrightarrow>
     extract_frame_cache s \<subseteq>\<^sub>m extract_frame_cache s'"
  by (auto simp add: extract_frame_def Let_def map_le_def split: if_splits sum.splits prod.splits)

lemma run_calls_keeps:
  "extract_frame_cache s \<subseteq>\<^sub>m extract_frame_cache (run_calls sc_get decode calls s)"
proof (induction calls arbitrary: s)
  case Nil
  then show ?case by simp
next
  case (Cons c calls)
  obtain run camcol field band sas where c: "c = (run, camcol, field, band, sas)"
    by (cases c)
  have "extract_frame_cache s \<subseteq>\<^sub>m
      extract_frame_cache (snd (extract_frame sc_get decode run camcol field band sas s))"
    by (rule extract_frame_keeps) (rule surjective_pairing)
  also have "\<dots> \<subseteq>\<^sub>m extract_frame_cache (run_calls sc_get decode (c # calls) s)"
    using Cons.IH by (simp add: c)
  finally show ?case .
qed

lemma extract_frame_returns:
  assumes "extract_frame sc_get decode run camcol field band sas s = (Inr img, s1)"
  shows "extract_frame_cache s1 (fm sas run camcol band field) = Some img"
    and "extract_frame_cache s (fm sas run camcol band field) = None \<Longrightarrow>
      sc_calls s1 = sc_calls s @ [fm sas run camcol band field]"
    and "extract_frame_cache s (fm sas run camcol band field) \<noteq> None \<Longrightarrow> s1 = s"
  using assms
  by (auto simp add: extract_frame_def Let_def getkey_def
      split: if_splits sum.splits prod.splits option.splits)

lemma extract_frame_raises:
  assumes "extract_frame sc_get decode run camcol field band sas s = (Inl e, s1)"
  shows "extract_frame_cache s (fm sas run camcol band field) = None"
    and "extract_frame_cache s1 = extract_frame_cache s"
    and "sc_calls s1 = sc_calls s @ [fm sas run camcol band field]"
  using assms
  by (auto simp add: extract_frame_def Let_def getkey_def
      split: if_splits sum.splits prod.splits option.splits)

text \<open>
  C6, as stated, fails, in two ways.  When the first call of the pair fails, nothing is
  memoized and the second call fetches again: with a storage whose first answer is a
  failure the pair invokes the storage collaborator twice, and the array that the
  second call returns was fetched by the second call itself.  And when the path was
  memoized by a call before the pair, the pair does not invoke the storage
  collaborator at all: after one earlier call the list of fetches is the same before
  and after the pair.
\<close>

theorem extract_frame_refetches:
  "twice flaky Inr 6122 1 13 ''r'' ''sdss_dr14://'' (fresh 0) =
     ((Inl (Collaborator ''timed out''),
       \<lparr>extract_frame_cache = Map.empty, sc_calls = [frame_6122], storage = 1\<rparr>),
      (Inr [[0, 1], [2, 3]],
       \<lparr>extract_frame_cache = [frame_6122 \<mapsto> [[0, 1], [2, 3]]],
        sc_calls = [frame_6122, frame_6122], storage = 2\<rparr>)) \<and>
   count_list [frame_6122, frame_6122] frame_6122 = 2 \<and>
   run_calls frames Inr [(6122, 1, 13, ''r'', ''sdss_dr14://'')] (fresh ()) =
     \<lparr>extract_frame_cache = [frame_6122 \<mapsto> [[0, 1], [2, 3]]], sc_calls = [frame_6122],
      storage = ()\<rparr> \<and>
   twice frames Inr 6122 1 13 ''r'' ''sdss_dr14://''
       \<lparr>extract_frame_cache = [frame_6122 \<mapsto> [[0, 1], [2, 3]]], sc_calls = [frame_6122],
        storage = ()\<rparr> =
     ((Inr [[0, 1], [2, 3]],
       \<lparr>extract_frame_cache = [frame_6122 \<mapsto> [[0, 1], [2, 3]]], sc_calls = [frame_6122],
        storage = ()\<rparr>),
      (Inr [[0, 1], [2, 3]],
       \<lparr>extract_frame_cache = [frame_6122 \<mapsto> [[0, 1], [2, 3]]], sc_calls = [frame_6122],
        storage = ()\<rparr>))"
  by (simp add: twice_def extract_frame_def fm_frame_6122 flaky_def frames_def fresh_def
      getkey_def)

text \<open>
  C6, amended.  For every pair of consecutive calls with the same arguments within one
  process, in whatever state the process and the storage service are.  If the first
  call returns an array, the second call returns the same array from the cache
  without any fetch and without changing the state, and the pair invokes the storage
  collaborator exactly once when the path was not memoized before the pair, and not
  at all when it was.  If the first call fails (the storage collaborator or the
  decoding raises), nothing is memoized for the path and the pair invokes the storage
  collaborator twice.  No call of the pair, and no later call of the process, removes
  or changes an entry of the cache.
\<close>

theorem extract_frame_memoizes:
  assumes "twice sc_get decode run camcol field band sas s = ((r1, s1), (r2, s2))"
  shows "(\<forall>img. r1 = Inr img \<longrightarrow>
            r2 = Inr img \<and> s2 = s1 \<and>
            (extract_frame_cache s (fm sas run camcol band field) = None \<longrightarrow>
               sc_calls s2 = sc_calls s @ [fm sas run camcol band field]) \<and>
            (extract_frame_cache s (fm sas run camcol band field) \<noteq> None \<longrightarrow>
               sc_calls s2 = sc_calls s)) \<and>
         (\<forall>e. r1 = Inl e \<longrightarrow>
            extract_frame_cache s1 (fm sas run camcol band field) = None \<and>
            sc_calls s2 =
              sc_calls s @ [fm sas run camcol band field, fm sas run camcol band field]) \<and>
         extract_frame_cache s \<subseteq>\<^sub>m extract_frame_cache s2 \<and>
         (\<forall>later. extract_frame_cache s2 \<subseteq>\<^sub>m
            extract_frame_cache (run_calls sc_get decode later s2))"
proof -
  let ?path = "fm sas run camcol band field"
  from assms have
    a: "extract_frame sc_get decode run camcol field band sas s = (r1, s1)" and
    b: "extract_frame sc_get decode run camcol field band sas s1 = (r2, s2)"
    by (auto simp add: twice_def Let_def split: prod.splits)
  have hit: "r2 = Inr img \<and> s2 = s1 \<and>
      (extract_frame_cache s ?path = None \<longrightarrow> sc_calls s2 = sc_calls s @ [?path]) \<and>
      (extract_frame_cache s ?path \<noteq> None \<longrightarrow> sc_calls s2 = sc_calls s)"
    if r: "r1 = Inr img" for img
  proof -
    from a r have a': "extract_frame sc_get decode run camcol field band sas s = (Inr img, s1)"
      by simp
    from extract_frame_cached [where sc_get = sc_get and decode = decode,
        OF extract_frame_returns(1) [OF a']] b
    have e: "r2 = Inr img" "s2 = s1" by simp_all
    with extract_frame_returns(2,3) [OF a'] show ?thesis by auto
  qed
  have miss: "extract_frame_cache s1 ?path = None \<and> sc_calls s2 = sc_calls s @ [?path, ?path]"
    if r: "r1 = Inl e" for e
  proof -
    from a r have a': "extract_frame sc_get decode run camcol field band sas s = (Inl e, s1)"
      by simp
    note f = extract_frame_raises [OF a']
    from f(1,2) have n: "extract_frame_cache s1 ?path = None" by simp
    with b have "sc_calls s2 = sc_calls s1 @ [?path]"
      by (auto simp add: extract_frame_def Let_def split: sum.splits prod.splits)
    with n f(3) show ?thesis by simp
  qed
  have "extract_frame_cache s \<subseteq>\<^sub>m extract_frame_cache s1"
    by (rule extract_frame_keeps [OF a])
  also have "extract_frame_cache s1 \<subseteq>\<^sub>m extract_frame_cache s2"
    by (rule extract_frame_keeps [OF b])
  finally have k: "extract_frame_cache s \<subseteq>\<^sub>m extract_frame_cache s2" .
  have l: "\<forall>later. extract_frame_cache s2 \<subseteq>\<^sub>m
      extract_frame_cache (run_calls sc_get decode later s2)"
    by (simp add: run_calls_keeps)
  from hit miss k l show ?thesis
    by blast
qed

text \<open>
  Two pairs of calls for the \<open>r\<close> band in a process that has just started: with the
  storage that holds the frame, and with the one that always fails.
\<close>

lemma twice_frames:
  "twice frames Inr 6122 1 13 ''r'' ''sdss_dr14://'' (fresh ()) =
     ((Inr [[0, 1], [2, 3]],
       \<lparr>extract_frame_cache = [frame_6122 \<mapsto> [[0, 1], [2, 3]]], sc_calls = [frame_6122],
        storage = ()\<rparr>),
      (Inr [[0, 1], [2, 3]],
       \<lparr>extract_frame_cache = [frame_6122 \<mapsto> [[0, 1], [2, 3]]], sc_calls = [frame_6122],
        storage = ()\<rparr>))"
  by (simp add: twice_def extract_frame_def fm_frame_6122 frames_def fresh_def getkey_def)

lemma twice_unreachable:
  "twice unreachable Inr 6122 1 13 ''r'' ''sdss_dr14://'' (fresh ()) =
     ((Inl (Collaborator ''unreachable''),
       \<lparr>extract_frame_cache = Map.empty, sc_calls = [frame_6122], storage = ()\<rparr>),
      (Inl (Collaborator ''unreachable''),
       \<lparr>extract_frame_cache = Map.empty, sc_calls = [frame_6122, frame_6122], storage = ()\<rparr>))"
  by (simp add: twice_def extract_frame_def fm_frame_6122 unreachable_def fresh_def)

theorem extract_frame_memoizes_witness:
  "twice frames Inr 6122 1 13 ''r'' ''sdss_dr14://'' (fresh ()) =
     ((Inr [[0, 1], [2, 3]],
       \<lparr>extract_frame_cache = [frame_6122 \<mapsto> [[0, 1], [2, 3]]], sc_calls = [frame_6122],
        storage = ()\<rparr>),
      (Inr [[0, 1], [2, 3]],
       \<lparr>extract_frame_cache = [frame_6122 \<mapsto> [[0, 1], [2, 3]]], sc_calls = [frame_6122],
        storage = ()\<rparr>)) \<and>
   extract_frame_cache (fresh () :: (real list list, unit) process)
     (fm ''sdss_dr14://'' 6122 1 ''r'' 13) = None \<and>
   sc_calls \<lparr>extract_frame_cache = [frame_6122 \<mapsto> [[0, 1], [2, 3 :: real]]],
     sc_calls = [frame_6122], storage = ()\<rparr> =
     sc_calls (fresh () :: (real list list, unit) process) @ [fm ''sdss_dr14://'' 6122 1 ''r'' 13] \<and>
   twice unreachable Inr 6122 1 13 ''r'' ''sdss_dr14://'' (fresh ()) =
     ((Inl (Collaborator ''unreachable''),
       \<lparr>extract_frame_cache = Map.empty, sc_calls = [frame_6122], storage = ()\<rparr>),
      (Inl (Collaborator ''unreachable''),
       \<lparr>extract_frame_cache = Map.empty, sc_calls = [frame_6122, frame_6122], storage = ()\<rparr>)) \<and>
   sc_calls \<lparr>extract_frame_cache = (Map.empty :: string \<rightharpoonup> real list list),
     sc_calls = [frame_6122, frame_6122], storage = ()\<rparr> =
     sc_calls (fresh () :: (real list list, unit) process) @
       [fm ''sdss_dr14://'' 6122 1 ''r'' 13, fm ''sdss_dr14://'' 6122 1 ''r'' 13]"
proof -
  have n: "extract_frame_cache (fresh () :: (real list list, unit) process)
     (fm ''sdss_dr14://'' 6122 1 ''r'' 13) = None"
    by (simp add: fresh_def)
  from extract_frame_memoizes [OF twice_frames] n
  have "sc_calls \<lparr>extract_frame_cache = [frame_6122 \<mapsto> [[0, 1], [2, 3 :: real]]],
     sc_calls = [frame_6122], storage = ()\<rparr> =
     sc_calls (fresh () :: (real list list, unit) process) @ [fm ''sdss_dr14://'' 6122 1 ''r'' 13]"
    by blast
  moreover from extract_frame_memoizes [OF twice_unreachable]
  have "sc_calls \<lparr>extract_frame_cache = (Map.empty :: string \<rightharpoonup> real list list),
     sc_calls = [frame_6122, frame_6122], storage = ()\<rparr> =
     sc_calls (fresh () :: (real list list, unit) process) @
       [fm ''sdss_dr14://'' 6122 1 ''r'' 13, fm ''sdss_dr14://'' 6122 1 ''r'' 13]"
    by blast
  ultimately show ?thesis
    using twice_frames twice_unreachable n by blast
qed

end
